theory Spec2Isabelle
  imports Main
begin

section \<open>GraphmlNamespace.js: the namespace registry and the class loader\<close>

text \<open>
  The file \<open>src/GraphmlNamespace.js\<close> keeps three pieces of shared mutable state:
  the table \<open>document.namespaces\<close>, the namespace objects themselves, and the loader's
  queue \<open>GraphmlNamespaceClassLoader.loaderList\<close> together with the script elements it
  appends to the document. All of it is gathered in one record, and each JavaScript
  function becomes a function from that record to its result and the updated record.

  Conventions of the embedding.
  \<^item> Objects are referred to by addresses (\<open>ref\<close>); \<open>===\<close> on objects is equality of
    addresses. The store \<open>heap\<close> is total and \<open>nextRef\<close> is the first address not yet
    handed out, so the objects that exist are the addresses below \<open>nextRef\<close>.
  \<^item> \<open>document.namespaces\<close> and \<open>classList\<close> are plain objects used as dictionaries.
    They are maps here; a key whose value is \<open>undefined\<close> is the same as a missing key,
    because the source reads these tables only through truthiness tests and \<open>===\<close>.
    Keys are taken not to collide with the property names every object inherits.
  \<^item> \<open>console.log\<close> appends its line to \<open>console\<close>.
  \<^item> A \<open>TypeError\<close> raised by the source is the value \<open>Inl TypeError\<close>.
\<close>

subsection \<open>JavaScript values and strings\<close>

datatype ctor = Function | AsyncFunction | GeneratorFunction | OtherConstructor nat

text \<open>
  A function value: its identity, its \<open>name\<close> property and the value of its
  \<open>constructor\<close> property. Every ordinary function, and every class, inherits
  \<open>constructor\<close> from \<open>Function.prototype\<close>, where it is \<open>Function\<close>.
\<close>

record jsfunction =
  fn_id :: nat
  fn_name :: string
  fn_constructor :: ctor

datatype jsval =
    JUndefined
  | JNull
  | JBool bool
  | JNum int
  | JStr string
  | JObj nat
  | JFun jsfunction

fun truthy :: "jsval \<Rightarrow> bool" where
  "truthy JUndefined = False"
| "truthy JNull = False"
| "truthy (JBool b) = b"
| "truthy (JNum n) = (n \<noteq> 0)"
| "truthy (JStr s) = (s \<noteq> [])"
| "truthy (JObj a) = True"
| "truthy (JFun f) = True"

fun typeof :: "jsval \<Rightarrow> string" where
  "typeof JUndefined = ''undefined''"
| "typeof JNull = ''object''"
| "typeof (JBool b) = ''boolean''"
| "typeof (JNum n) = ''number''"
| "typeof (JStr s) = ''string''"
| "typeof (JObj a) = ''object''"
| "typeof (JFun f) = ''function''"

text \<open>\<open>String.prototype.lastIndexOf\<close> for a single character: \<open>-1\<close> when it is absent.\<close>

fun lastIndexOf :: "string \<Rightarrow> char \<Rightarrow> int" where
  "lastIndexOf [] c = -1"
| "lastIndexOf (x # xs) c =
     (let i = lastIndexOf xs c
      in if 0 \<le> i then i + 1 else if x = c then 0 else -1)"

text \<open>
  \<open>String.prototype.slice(start, end)\<close>: a negative index counts from the end, both
  indices are clamped to the string, and the result is empty when \<open>end \<le> start\<close>.
\<close>

definition js_slice :: "string \<Rightarrow> int \<Rightarrow> int \<Rightarrow> string" where
  "js_slice s start end' =
     (let len = int (length s);
          from = (if start < 0 then max (len + start) 0 else min start len);
          to = (if end' < 0 then max (len + end') 0 else min end' len)
      in take (nat (to - from)) (drop (nat from) s))"

subsection \<open>The state\<close>

type_synonym ref = nat

record namespace =
  uri :: string
  classList :: "string \<rightharpoonup> jsfunction"
  isScoped :: bool

text \<open>A loading task, as \<open>GraphmlNamespaceClassLoader.load\<close> builds it.\<close>

record entry =
  entry_namespace :: "ref option"
  entry_classList :: "string list"
  entry_folder :: string

text \<open>
  A script element appended by \<open>loader\<close>: its \<open>src\<close> attribute, the namespace its
  handlers close over, and whether the handlers are still set (\<open>armed\<close>); both handlers
  set all of them to \<open>null\<close> first, so an element fires at most once.
\<close>

record script =
  script_src :: string
  script_namespace :: "ref option"
  armed :: bool

record sys =
  heap :: "ref \<Rightarrow> namespace"
  nextRef :: ref
  namespaces :: "string \<rightharpoonup> ref"
  loaderList :: "entry list"
  head :: "script list"
  console :: "string list"

datatype error = TypeError

definition log :: "string \<Rightarrow> sys \<Rightarrow> sys" where
  "log line s = s\<lparr>console := console s @ [line]\<rparr>"

definition set_isScoped :: "ref \<Rightarrow> bool \<Rightarrow> sys \<Rightarrow> sys" where
  "set_isScoped n b s = s\<lparr>heap := (heap s)(n := (heap s n)\<lparr>isScoped := b\<rparr>)\<rparr>"

definition set_uri :: "ref \<Rightarrow> string \<Rightarrow> sys \<Rightarrow> sys" where
  "set_uri n u s = s\<lparr>heap := (heap s)(n := (heap s n)\<lparr>uri := u\<rparr>)\<rparr>"

definition set_namespace :: "string \<Rightarrow> ref option \<Rightarrow> sys \<Rightarrow> sys" where
  "set_namespace u v s = s\<lparr>namespaces := (namespaces s)(u := v)\<rparr>"

text \<open>The state after the file's first statement: an empty table, nothing loaded.\<close>

definition init :: sys where
  "init = \<lparr>heap = (\<lambda>_. \<lparr>uri = [], classList = Map.empty, isScoped = False\<rparr>),
           nextRef = 0, namespaces = Map.empty, loaderList = [], head = [], console = []\<rparr>"

subsection \<open>The registry\<close>

text \<open>\<open>GraphmlNamespace.get\<close> (line 17).\<close>

definition get :: "string \<Rightarrow> sys \<Rightarrow> ref option" where
  "get u s = namespaces s u"

text \<open>\<open>GraphmlNamespace.prototype.descope\<close> (line 99).\<close>

definition descope :: "ref \<Rightarrow> sys \<Rightarrow> bool \<times> sys" where
  "descope n s =
     (let s1 = log (''Namespace '' @ uri (heap s n) @ '': removing oneself from current scope'') s;
          s2 = set_namespace (uri (heap s1 n)) None s1;
          s3 = set_isScoped n False s2
      in (True, s3))"

text \<open>
  \<open>GraphmlNamespace.prototype.scope\<close> (line 62). In the last branch the table holds
  another object, so \<open>oldNamespace\<close> is truthy; \<open>willScope\<close> starts as \<open>true\<close> and is
  assigned only when \<open>overwrite\<close> is truthy.
\<close>

definition scope_final :: "ref \<Rightarrow> sys \<Rightarrow> bool \<times> sys" where
  "scope_final n s =
     (if isScoped (heap s n)
      then (True, log (''Namespace '' @ uri (heap s n) @ '': adding oneself to the current scope'') s)
      else (False, s))"

definition scope :: "ref \<Rightarrow> bool \<Rightarrow> sys \<Rightarrow> bool \<times> sys" where
  "scope n overwrite s =
     (if \<not> isScoped (heap s n) then
        (let u = uri (heap s n) in
         case namespaces s u of
           None \<Rightarrow> scope_final n (set_isScoped n True (set_namespace u (Some n) s))
         | Some old \<Rightarrow>
             if old = n then
               (True, set_isScoped n True (log (''Namespace '' @ u @ '': already scoped'') s))
             else
               (let s1 = log (''Namespace: existing namespace already found scoped under the schema '' @ u) s;
                    (willScope, s2) = (if overwrite then descope old s1 else (True, s1))
                in scope_final n
                     (if willScope then set_isScoped n True (set_namespace u (Some n) s2) else s2)))
      else scope_final n s)"

text \<open>\<open>GraphmlNamespace.prototype.getScope\<close> and \<open>getNamespaceURI\<close> (lines 110, 118).\<close>

definition getScope :: "ref \<Rightarrow> sys \<Rightarrow> bool" where
  "getScope n s = isScoped (heap s n)"

definition getNamespaceURI :: "ref \<Rightarrow> sys \<Rightarrow> string" where
  "getNamespaceURI n s = uri (heap s n)"

text \<open>\<open>GraphmlNamespace.prototype.setNamespaceURI\<close> (line 127).\<close>

definition setNamespaceURI :: "ref \<Rightarrow> string \<Rightarrow> sys \<Rightarrow> bool \<times> sys" where
  "setNamespaceURI n u s =
     (let oldURI = uri (heap s n) in
      if oldURI = u then (True, s)
      else if isScoped (heap s n) then
        (if namespaces s oldURI \<noteq> None then
           (False, log (''GraphmlNamespace '' @ oldURI @
              '': not allowed to change a namespace URI while that namespace is scoped'') s)
         else
           (let s1 = set_namespace u (namespaces s oldURI) s;
                s2 = set_namespace oldURI None s1
            in (True, set_uri n u s2)))
      else (True, set_uri n u s))"

text \<open>\<open>GraphmlNamespace.prototype.getSpecificClass\<close> (line 172).\<close>

definition getSpecificClass :: "ref \<Rightarrow> string \<Rightarrow> sys \<Rightarrow> jsfunction option" where
  "getSpecificClass n name s = classList (heap s n) name"

text \<open>
  \<open>GraphmlNamespace.prototype.setSpecificClass\<close> (line 182). The \<open>name\<close> argument is a
  string or \<open>null\<close> (\<open>None\<close>); \<open>name || newClass.name\<close> falls back to the function's own
  name when it is \<open>null\<close> or empty.
\<close>

definition setSpecificClass :: "ref \<Rightarrow> string option \<Rightarrow> jsval \<Rightarrow> sys \<Rightarrow> bool \<times> sys" where
  "setSpecificClass n name newClass s =
     (if \<not> truthy newClass \<or> typeof newClass \<noteq> ''function'' then (False, s)
      else case newClass of
        JFun f \<Rightarrow>
          (let name1 = (case name of None \<Rightarrow> fn_name f
                        | Some x \<Rightarrow> if x = [] then fn_name f else x);
               store = s\<lparr>heap := (heap s)(n := (heap s n)
                          \<lparr>classList := (classList (heap s n))(name1 \<mapsto> f)\<rparr>)\<rparr>
           in if name1 = [] then (False, s)
              else case classList (heap s n) name1 of
                None \<Rightarrow> (True, store)
              | Some oldClass \<Rightarrow>
                  if fn_constructor oldClass = fn_constructor f then (True, s)
                  else if isScoped (heap s n) \<and> namespaces s (uri (heap s n)) \<noteq> None then
                    (False, log (''GraphmlNamespace '' @ uri (heap s n) @
                       '': not allowed to change class '' @ name1 @ '' while scoped'') s)
                  else (True, store))
      | _ \<Rightarrow> (False, s))"

subsection \<open>The class loader\<close>

text \<open>
  \<open>GraphmlNamespaceClassLoader.loader\<close> (line 319) creates a script element, sets its
  \<open>src\<close> to \<open>folder + src\<close>, installs the two handlers and appends it to the document.
  Its \<open>src\<close> argument is \<open>undefined\<close> (\<open>None\<close>) when \<open>shift\<close> was applied to an empty
  array; string concatenation then yields the text \<open>undefined\<close>.
\<close>

definition loader :: "string option \<Rightarrow> ref option \<Rightarrow> string \<Rightarrow> sys \<Rightarrow> sys" where
  "loader src ns folder s =
     s\<lparr>head := head s @
        [\<lparr>script_src = folder @ (case src of None \<Rightarrow> ''undefined'' | Some x \<Rightarrow> x),
          script_namespace = ns, armed = True\<rparr>]\<rparr>"

text \<open>\<open>Array.prototype.shift\<close>: the removed first element (or \<open>undefined\<close>) and the rest.\<close>

fun shift :: "'a list \<Rightarrow> 'a option \<times> 'a list" where
  "shift [] = (None, [])"
| "shift (x # xs) = (Some x, xs)"

text \<open>
  \<open>GraphmlNamespaceClassLoader.loadNextClass\<close> (line 299): the first identifier of the
  front task is removed and handed to \<open>loader\<close>; the task leaves the queue as soon as
  its list is empty, that is, when its last identifier has been dispatched.
\<close>

definition loadNextClass :: "sys \<Rightarrow> sys" where
  "loadNextClass s =
     (case loaderList s of
        [] \<Rightarrow> s
      | e # rest \<Rightarrow>
          (let (x, remaining) = shift (entry_classList e);
               s1 = s\<lparr>loaderList := e\<lparr>entry_classList := remaining\<rparr> # rest\<rparr>;
               s2 = loader x (entry_namespace e) (entry_folder e) s1
           in if remaining = [] then s2\<lparr>loaderList := tl (loaderList s2)\<rparr> else s2))"

text \<open>
  \<open>GraphmlNamespaceClassLoader.load\<close> (line 278). Its first statement reads
  \<open>document.currentScript.getAttribute("src")\<close> and slices the result: \<open>cs\<close> is that
  attribute, \<open>None\<close> when there is no current script or it has no \<open>src\<close>, in which case
  the statement (line 279 or line 284) raises a \<open>TypeError\<close> before anything is changed.
\<close>

definition load :: "string list \<Rightarrow> ref option \<Rightarrow> string option \<Rightarrow> sys \<Rightarrow> error + sys" where
  "load classArray ns cs s =
     (case cs of
        None \<Rightarrow> Inl TypeError
      | Some src \<Rightarrow>
          (let e = \<lparr>entry_namespace = ns, entry_classList = classArray,
                    entry_folder = js_slice src 0 (lastIndexOf src (CHR ''/'') + 1)\<rparr>;
               len = length (loaderList s);
               s1 = s\<lparr>loaderList := loaderList s @ [e]\<rparr>
           in Inr (if len = 0 then loadNextClass s1 else s1)))"

text \<open>\<open>GraphmlNamespaceClassLoader\<close> itself (line 261).\<close>

definition GraphmlNamespaceClassLoader ::
  "string list \<Rightarrow> ref option \<Rightarrow> string option \<Rightarrow> sys \<Rightarrow> error + sys" where
  "GraphmlNamespaceClassLoader classArray ns cs s =
     (if classArray \<noteq> [] then load classArray ns cs s else Inr s)"

text \<open>
  The name the \<open>onload\<close> handler computes from the element's \<open>src\<close> attribute (line 330):
  what follows the last slash, without the last three characters.
\<close>

definition className :: "string \<Rightarrow> string" where
  "className src = js_slice src (lastIndexOf src (CHR ''/'') + 1) (int (length src) - 3)"

text \<open>
  The handlers (lines 326 and 335), fired on the \<open>i\<close>-th appended script element.
  Nothing happens when the element does not exist or its handlers are already cleared.
  \<open>window\<close> is the global object as it is when \<open>onload\<close> runs; a global that is not
  defined reads as \<open>JUndefined\<close>.
\<close>

definition disarm :: "nat \<Rightarrow> sys \<Rightarrow> sys" where
  "disarm i s = s\<lparr>head := (head s)[i := (head s ! i)\<lparr>armed := False\<rparr>]\<rparr>"

definition onload :: "nat \<Rightarrow> (string \<Rightarrow> jsval) \<Rightarrow> sys \<Rightarrow> sys" where
  "onload i window s =
     (if i < length (head s) \<and> armed (head s ! i) then
        (let sc = head s ! i;
             s1 = disarm i s;
             s2 = (case script_namespace sc of
                     None \<Rightarrow> s1
                   | Some n \<Rightarrow> snd (setSpecificClass n None (window (className (script_src sc))) s1))
         in loadNextClass s2)
      else s)"

definition onerror :: "nat \<Rightarrow> sys \<Rightarrow> sys" where
  "onerror i s =
     (if i < length (head s) \<and> armed (head s ! i) then loadNextClass (disarm i s) else s)"

text \<open>The fetches in flight: the script elements whose handlers are still set.\<close>

definition inflight :: "sys \<Rightarrow> string list" where
  "inflight s = map script_src (filter armed (head s))"

subsection \<open>The constructor\<close>

record attributes =
  attr_classList :: "string list option"
  attr_unscoped :: bool

text \<open>
  \<open>GraphmlNamespace\<close> (line 40), in the order of its statements: the fields of the new
  object (lines 41 to 43), the class list handed to the loader (lines 45 and 46), and
  the attempt to scope (lines 48 to 54). \<open>attr_unscoped\<close> is the outcome of
  \<open>attributes.unscoped === true\<close>. The new object gets the next free address; when the
  loader raises, the exception leaves the constructor and the caller never sees the object.
\<close>

definition allocate :: "string \<Rightarrow> sys \<Rightarrow> sys" where
  "allocate u s =
     s\<lparr>heap := (heap s)(nextRef s := \<lparr>uri = u, classList = Map.empty, isScoped = False\<rparr>),
       nextRef := Suc (nextRef s)\<rparr>"

definition load_classList ::
  "attributes option \<Rightarrow> ref \<Rightarrow> string option \<Rightarrow> sys \<Rightarrow> error + sys" where
  "load_classList attrs n cs s =
     (case attrs of
        None \<Rightarrow> Inr s
      | Some a \<Rightarrow>
          (case attr_classList a of
             None \<Rightarrow> Inr s
           | Some cl \<Rightarrow> GraphmlNamespaceClassLoader cl (Some n) cs s))"

definition marked_unscoped :: "attributes option \<Rightarrow> bool" where
  "marked_unscoped attrs = (case attrs of None \<Rightarrow> False | Some a \<Rightarrow> attr_unscoped a)"

definition conflict_message :: "string \<Rightarrow> string" where
  "conflict_message u =
     ''Namespace: not allowed to scope a new namespace that already is defined within the same scope - '' @ u"

definition GraphmlNamespace ::
  "string \<Rightarrow> attributes option \<Rightarrow> string option \<Rightarrow> sys \<Rightarrow> error + (ref \<times> sys)" where
  "GraphmlNamespace u attrs cs s =
     (let n = nextRef s in
      case load_classList attrs n cs (allocate u s) of
        Inl e \<Rightarrow> Inl e
      | Inr s1 \<Rightarrow>
          if \<not> marked_unscoped attrs then
            (if get u s1 = None then Inr (n, snd (scope n False s1))
             else Inr (n, log (conflict_message u) s1))
          else Inr (n, s1))"


subsection \<open>Sequences of registry operations\<close>

text \<open>
  A caller's operations on the registry. An operation on an address that has not been
  handed out cannot be written in the source and does nothing here. A constructor call
  that raises leaves no reachable object behind, so the state is as before.
\<close>

datatype op =
    New string "attributes option" "string option"
  | Scope ref bool
  | Descope ref
  | Rename ref string

fun exec :: "op \<Rightarrow> sys \<Rightarrow> sys" where
  "exec (New u attrs cs) s =
     (case GraphmlNamespace u attrs cs s of Inl e \<Rightarrow> s | Inr (n, s') \<Rightarrow> s')"
| "exec (Scope n overwrite) s = (if n < nextRef s then snd (scope n overwrite s) else s)"
| "exec (Descope n) s = (if n < nextRef s then snd (descope n s) else s)"
| "exec (Rename n u) s = (if n < nextRef s then snd (setNamespaceURI n u s) else s)"

fun run :: "op list \<Rightarrow> sys \<Rightarrow> sys" where
  "run [] s = s"
| "run (x # xs) s = run xs (exec x s)"








subsection \<open>Sequences of loader events\<close>

text \<open>
  What happens to the loader: a caller hands it a class list, or the browser fires
  \<open>onload\<close> or \<open>onerror\<close> on the \<open>i\<close>-th appended script element. A call that raises
  changes nothing.
\<close>

datatype event =
    Enqueue "string list" "ref option" "string option"
  | Loaded nat "string \<Rightarrow> jsval"
  | Failed nat

fun step :: "event \<Rightarrow> sys \<Rightarrow> sys" where
  "step (Enqueue classArray ns cs) s =
     (case GraphmlNamespaceClassLoader classArray ns cs s of Inl e \<Rightarrow> s | Inr s' \<Rightarrow> s')"
| "step (Loaded i window) s = onload i window s"
| "step (Failed i) s = onerror i s"

fun steps :: "event list \<Rightarrow> sys \<Rightarrow> sys" where
  "steps [] s = s"
| "steps (x # xs) s = steps xs (step x s)"

subsection \<open>Example states\<close>

text \<open>Two namespaces constructed with the same identifier; the first holds the slot.\<close>

definition two_on_U :: sys where
  "two_on_U = run [New ''U'' None None, New ''U'' None None] init"





text \<open>An ordinary function declared under a name, and a global object holding some.\<close>

definition ordinary :: "nat \<Rightarrow> string \<Rightarrow> jsfunction" where
  "ordinary i name = \<lparr>fn_id = i, fn_name = name, fn_constructor = Function\<rparr>"

definition globals :: "(string \<times> jsfunction) list \<Rightarrow> string \<Rightarrow> jsval" where
  "globals xs k = (case map_of xs k of None \<Rightarrow> JUndefined | Some f \<Rightarrow> JFun f)"

text \<open>
  A scoped namespace, and one constructed as unscoped, each holding a class under \<open>X\<close>.
\<close>

definition holds_X :: sys where
  "holds_X = snd (setSpecificClass 0 (Some ''X'') (JFun (ordinary 1 ''Old''))
                   (run [New ''U'' None None] init))"

definition holds_X_unscoped :: sys where
  "holds_X_unscoped = snd (setSpecificClass 0 (Some ''X'') (JFun (ordinary 1 ''Old''))
       (run [New ''U'' (Some \<lparr>attr_classList = None, attr_unscoped = True\<rparr>) None] init))"

text \<open>
  Two namespaces; a task of three classes for the first has had its first two scripts
  loaded, so that the third is being fetched.
\<close>

definition third_in_flight :: sys where
  "third_in_flight =
     steps [Enqueue [''A.js'', ''B.js'', ''C.js''] (Some 0) (Some ''lib/ns.js''),
            Loaded 0 (globals []), Loaded 1 (globals [])]
       (run [New ''U'' None None, New ''V'' None None] init)"






section \<open>Properties\<close>

lemmas upd_defs = log_def set_isScoped_def set_uri_def set_namespace_def

lemmas ctor_defs = GraphmlNamespace_def load_classList_def allocate_def marked_unscoped_def get_def

lemma two_on_U_fields:
  "nextRef two_on_U = 2"
  "namespaces two_on_U = [''U'' \<mapsto> 0]"
  "uri (heap two_on_U 0) = ''U''" "isScoped (heap two_on_U 0) = True"
  "uri (heap two_on_U (Suc 0)) = ''U''" "isScoped (heap two_on_U (Suc 0)) = False"
  by (simp_all add: two_on_U_def init_def ctor_defs scope_def
        scope_final_def upd_defs Let_def)



subsection \<open>Agreement of the registry and the flags\<close>








lemma scope_own:
  "\<not> isScoped (heap s n) \<Longrightarrow> namespaces s (uri (heap s n)) = Some n \<Longrightarrow>
     namespaces (snd (scope n ow s)) = namespaces s \<and>
     heap (snd (scope n ow s)) = (heap s)(n := (heap s n)\<lparr>isScoped := True\<rparr>)"
  by (simp add: scope_def scope_final_def upd_defs Let_def)




















subsection \<open>scope\<close>

text \<open>
  C1. The claim: when the slot of \<open>N\<close>'s identifier is held by another instance,
  \<open>scope\<close> without \<open>overwrite\<close> returns \<open>false\<close>, leaves \<open>N\<close> unscoped and leaves the
  occupant in the table. The code does otherwise: \<open>willScope\<close> is initialised to \<open>true\<close>
  (line 77) and only reassigned under \<open>overwrite\<close>, so the assignment of line 84 runs.
  After two constructions with the identifier \<open>U\<close> the first instance (address 0) holds
  the slot and the second (address 1) is unscoped; \<open>scope(false)\<close> on the second returns
  \<open>true\<close>, flags it as scoped and files it under \<open>U\<close>, while the first keeps its flag.
\<close>

theorem scope_without_overwrite_takes_slot:
  "namespaces two_on_U ''U'' = Some 0 \<and> isScoped (heap two_on_U 1) = False \<and>
   fst (scope 1 False two_on_U) = True \<and>
   isScoped (heap (snd (scope 1 False two_on_U)) 1) = True \<and>
   namespaces (snd (scope 1 False two_on_U)) ''U'' = Some 1 \<and>
   isScoped (heap (snd (scope 1 False two_on_U)) 0) = True"
  by (simp add: two_on_U_fields scope_def scope_final_def upd_defs Let_def)

subsection \<open>descope\<close>



subsection \<open>setNamespaceURI\<close>

text \<open>
  C8. Renaming to the identifier the instance already has returns \<open>true\<close> and changes
  nothing. Renaming a scoped instance to another identifier while the table still holds
  an entry under the old one returns \<open>false\<close>; the instance keeps its identifier, and the
  table and all objects are as before (only the refusal is written to the console).
\<close>

theorem rename_unchanged_or_refused:
  "setNamespaceURI n (uri (heap s n)) s = (True, s) \<and>
   (isScoped (heap s n) \<and> namespaces s (uri (heap s n)) \<noteq> None \<and> u \<noteq> uri (heap s n) \<longrightarrow>
      fst (setNamespaceURI n u s) = False \<and>
      uri (heap (snd (setNamespaceURI n u s)) n) = uri (heap s n) \<and>
      namespaces (snd (setNamespaceURI n u s)) (uri (heap s n)) = namespaces s (uri (heap s n)) \<and>
      namespaces (snd (setNamespaceURI n u s)) = namespaces s \<and>
      heap (snd (setNamespaceURI n u s)) = heap s)"
  by (auto simp add: setNamespaceURI_def upd_defs Let_def)

theorem rename_unchanged_or_refused_witness:
  "isScoped (heap two_on_U 0) \<and> namespaces two_on_U (uri (heap two_on_U 0)) = Some 0 \<and>
   ''V'' \<noteq> uri (heap two_on_U 0) \<and>
   setNamespaceURI 0 ''U'' two_on_U = (True, two_on_U) \<and>
   fst (setNamespaceURI 0 ''V'' two_on_U) = False \<and>
   uri (heap (snd (setNamespaceURI 0 ''V'' two_on_U)) 0) = ''U'' \<and>
   namespaces (snd (setNamespaceURI 0 ''V'' two_on_U)) ''U'' = Some 0"
  using rename_unchanged_or_refused [of 0 two_on_U "''V''"]
  by (simp add: two_on_U_fields)

subsection \<open>Construction\<close>










subsection \<open>setSpecificClass\<close>

lemma holds_X_fields:
  "isScoped (heap holds_X 0) = True" "uri (heap holds_X 0) = ''U''"
  "namespaces holds_X ''U'' = Some 0"
  "classList (heap holds_X 0) ''X'' = Some (ordinary 1 ''Old'')"
  by (simp_all add: holds_X_def init_def ctor_defs scope_def scope_final_def
        setSpecificClass_def upd_defs Let_def ordinary_def)

lemma holds_X_unscoped_fields:
  "isScoped (heap holds_X_unscoped 0) = False"
  "classList (heap holds_X_unscoped 0) ''X'' = Some (ordinary 1 ''Old'')"
  by (simp_all add: holds_X_unscoped_def init_def ctor_defs
        setSpecificClass_def upd_defs Let_def ordinary_def)

text \<open>
  What the code does when the \<open>constructor\<close> properties of the old and the new class
  differ: a scoped namespace with an entry in the table refuses, any other replaces.
\<close>

lemma setSpecificClass_distinct_constructors:
  assumes "classList (heap s n) x = Some old" "x \<noteq> []" "fn_constructor f \<noteq> fn_constructor old"
  shows "setSpecificClass n (Some x) (JFun f) s =
     (if isScoped (heap s n) \<and> namespaces s (uri (heap s n)) \<noteq> None
      then (False, log (''GraphmlNamespace '' @ uri (heap s n) @
                       '': not allowed to change class '' @ x @ '' while scoped'') s)
      else (True, s\<lparr>heap := (heap s)(n := (heap s n)
                      \<lparr>classList := (classList (heap s n))(x \<mapsto> f)\<rparr>)\<rparr>))"
  using assms by (auto simp add: setSpecificClass_def Let_def)

text \<open>
  C3. The claim: on a scoped namespace holding a class under \<open>X\<close>, \<open>setSpecificClass\<close>
  with \<open>X\<close> and a different function returns \<open>false\<close> and keeps the old class; on an
  unscoped namespace it returns \<open>true\<close> and stores the new one. The code compares
  \<open>oldClass.constructor\<close> with \<open>newClass.constructor\<close> (line 192), and for two ordinary
  functions both are \<open>Function\<close>: the call returns \<open>true\<close> on line 193 and stores nothing,
  whether the namespace is scoped or not. The refusal of line 196 and the assignment
  of line 199 are reached only when the two \<open>constructor\<close> properties differ.
\<close>

theorem overwrite_by_ordinary_function_is_ignored:
  "isScoped (heap holds_X 0) = True \<and> get ''U'' holds_X = Some 0 \<and>
   getSpecificClass 0 ''X'' holds_X = Some (ordinary 1 ''Old'') \<and>
   ordinary 2 ''New'' \<noteq> ordinary 1 ''Old'' \<and>
   fst (setSpecificClass 0 (Some ''X'') (JFun (ordinary 2 ''New'')) holds_X) = True \<and>
   getSpecificClass 0 ''X'' (snd (setSpecificClass 0 (Some ''X'') (JFun (ordinary 2 ''New'')) holds_X))
     = Some (ordinary 1 ''Old'') \<and>
   isScoped (heap holds_X_unscoped 0) = False \<and>
   getSpecificClass 0 ''X'' holds_X_unscoped = Some (ordinary 1 ''Old'') \<and>
   fst (setSpecificClass 0 (Some ''X'') (JFun (ordinary 2 ''New'')) holds_X_unscoped) = True \<and>
   getSpecificClass 0 ''X''
     (snd (setSpecificClass 0 (Some ''X'') (JFun (ordinary 2 ''New'')) holds_X_unscoped))
     = Some (ordinary 1 ''Old'')"
  by (simp add: holds_X_fields holds_X_unscoped_fields get_def getSpecificClass_def
        setSpecificClass_def ordinary_def)

theorem overwrite_by_ordinary_function_is_ignored_witness:
  "setSpecificClass 0 (Some ''X'') (JFun (ordinary 2 ''New'')) holds_X = (True, holds_X)"
proof -
  have "snd (setSpecificClass 0 (Some ''X'') (JFun (ordinary 2 ''New'')) holds_X) = holds_X"
    by (simp add: holds_X_fields setSpecificClass_def ordinary_def)
  with overwrite_by_ordinary_function_is_ignored show ?thesis
    by (simp add: prod_eq_iff)
qed

subsection \<open>The loader's queue\<close>

lemmas loader_defs = GraphmlNamespaceClassLoader_def load_def loadNextClass_def loader_def
  onload_def onerror_def disarm_def className_def js_slice_def inflight_def

text \<open>
  C5. The claim: at most one fetch is in flight, also when \<open>load\<close> is called after the
  current task has left the queue and before its last fetch completes. The code removes a
  task from the queue as soon as its last identifier is dispatched (lines 305 and 306),
  so during that fetch the queue is empty, and \<open>load\<close> (line 290) takes the new task for
  the first one and dispatches at once. After a task with the single class \<open>a.js\<close>, a second
  call with \<open>b.js\<close> made before \<open>a.js\<close> has loaded leaves two fetches in flight.
\<close>

theorem second_enqueue_fires_while_fetch_pending:
  "loaderList (step (Enqueue [''a.js''] None (Some ''lib/ns.js'')) init) = [] \<and>
   inflight (step (Enqueue [''a.js''] None (Some ''lib/ns.js'')) init) = [''lib/a.js''] \<and>
   inflight (steps [Enqueue [''a.js''] None (Some ''lib/ns.js''),
                    Enqueue [''b.js''] None (Some ''lib/ns.js'')] init)
     = [''lib/a.js'', ''lib/b.js'']"
  by (simp add: init_def loader_defs Let_def)

lemma third_in_flight_fields:
  "loaderList third_in_flight = []"
  "head third_in_flight =
     [\<lparr>script_src = ''lib/A.js'', script_namespace = Some 0, armed = False\<rparr>,
      \<lparr>script_src = ''lib/B.js'', script_namespace = Some 0, armed = False\<rparr>,
      \<lparr>script_src = ''lib/C.js'', script_namespace = Some 0, armed = True\<rparr>]"
  by (simp_all add: third_in_flight_def init_def loader_defs Let_def ctor_defs
        scope_def scope_final_def setSpecificClass_def globals_def upd_defs)

text \<open>
  C6. The claim: a second task enqueued at any point while a task \<open>[A, B, C]\<close> is draining
  is not dispatched before the registration attempts for \<open>A\<close>, \<open>B\<close> and \<open>C\<close> are complete.
  Once \<open>A\<close> and \<open>B\<close> have loaded, \<open>C\<close> is being fetched and the first task has already
  left the queue (lines 305 and 306). A task for another namespace enqueued at that point
  finds the queue empty and has its class \<open>D\<close> dispatched while \<open>C\<close> is still in flight,
  before \<open>C\<close>'s handler has run.
\<close>

theorem second_task_dispatched_before_third_completes:
  "inflight third_in_flight = [''lib/C.js''] \<and>
   loaderList third_in_flight = [] \<and>
   inflight (step (Enqueue [''D.js''] (Some 1) (Some ''other/ns.js'')) third_in_flight)
     = [''lib/C.js'', ''other/D.js'']"
  by (simp add: third_in_flight_fields loader_defs Let_def)

subsection \<open>Registration of a loaded class\<close>












subsection \<open>A failed fetch\<close>


lemma loadNextClass_dispatch:
  assumes "loaderList s = e # q" "entry_classList e = x # rest"
  shows "head (loadNextClass s) =
           head s @ [\<lparr>script_src = entry_folder e @ x, script_namespace = entry_namespace e,
                      armed = True\<rparr>]"
    and "loaderList (loadNextClass s) = (if rest = [] then q else e\<lparr>entry_classList := rest\<rparr> # q)"
  using assms by (simp_all add: loadNextClass_def loader_def Let_def)

lemma loadNextClass_idle: "loaderList s = [] \<Longrightarrow> loadNextClass s = s"
  by (simp add: loadNextClass_def)






end
